theory Spec2Isabelle
  imports Main "HOL-Library.AList"
begin

section \<open>Data model (employee/models.py)\<close>

text \<open>
  The tables the dynamic form engine works on. Primary keys and user ids are natural
  numbers, timestamps are ticks of a clock that the request carries. Strings are lists of
  8-bit characters.
\<close>

datatype error =
    IntegrityError | DoesNotExist | MultipleObjectsReturned | ValueError | OverflowError
  | KeyError | ValidationError | Http404

text \<open>\<open>FormField.FIELD_TYPES\<close>: the choices declared for \<open>field_type\<close>.\<close>

definition FIELD_TYPES :: "(string \<times> string) list" where
  "FIELD_TYPES =
     [(''text'', ''Text''), (''number'', ''Number''), (''date'', ''Date''), (''email'', ''Email''),
      (''password'', ''Password''), (''textarea'', ''Text Area''), (''checkbox'', ''Checkbox''),
      (''select'', ''Select'')]"

text \<open>
  \<open>class FormField(models.Model)\<close>; \<open>field_id\<close> is the automatic primary key \<open>id\<close>,
  \<open>created_by\<close> the id of the owning user.
\<close>

record FormField =
  field_id :: nat
  label :: string
  field_type :: string
  required :: bool
  order :: nat
  created_by :: nat
  created_at :: nat

text \<open>
  \<open>Employee.fields\<close> is a JSON dictionary from a label to \<open>{'value': ..., 'type': ...}\<close>.
  A Python dictionary keeps its keys in insertion order and assigning to a key that is
  already there replaces the value in place, which is what \<open>AList.update\<close> does on an
  association list. The entry is the pair (value, type); the value is \<open>None\<close> for Python's
  \<open>None\<close> (JSON \<open>null\<close>).
\<close>

type_synonym field_entry = "string option \<times> string"
type_synonym fields_dict = "(string \<times> field_entry) list"

text \<open>
  \<open>class Employee(models.Model)\<close>; \<open>user\<close> is a \<open>OneToOneField\<close>, so the table carries a
  unique constraint on it (see \<open>Employee_objects_create\<close>). \<open>emp_id\<close> is the primary key \<open>id\<close>,
  \<open>emp_fields\<close> the column \<open>fields\<close>, \<open>emp_created_at\<close> the column \<open>created_at\<close>.
\<close>

record Employee =
  emp_id :: nat
  user :: nat
  emp_fields :: fields_dict
  emp_created_at :: nat
  updated_at :: nat

text \<open>
  \<open>class CustomUser(AbstractUser)\<close>, with the columns that the views and serializers of the
  records read or write; \<open>user_id\<close> is the primary key \<open>id\<close>.
\<close>

record CustomUser =
  user_id :: nat
  email :: string
  first_name :: string
  last_name :: string
  phone :: "string option"
  address :: "string option"

record database =
  users :: "CustomUser list"
  form_fields :: "FormField list"
  employees :: "Employee list"
  next_field_id :: nat
  next_emp_id :: nat

section \<open>Requests and responses\<close>

text \<open>
  A \<open>QueryDict\<close> maps a key to the list of values submitted under it (empty when the key
  is absent). \<open>get\<close> answers the last value of the list, or the default.
\<close>

type_synonym QueryDict = "string \<Rightarrow> string list"

definition QueryDict_get :: "QueryDict \<Rightarrow> string \<Rightarrow> string option" where
  "QueryDict_get q k = (case q k of [] \<Rightarrow> None | v # vs \<Rightarrow> Some (last (v # vs)))"

definition QueryDict_get_default :: "QueryDict \<Rightarrow> string \<Rightarrow> string \<Rightarrow> string" where
  "QueryDict_get_default q k d = (case QueryDict_get q k of None \<Rightarrow> d | Some v \<Rightarrow> v)"

definition getlist :: "QueryDict \<Rightarrow> string \<Rightarrow> string list" where
  "getlist q k = q k"

text \<open>
  \<open>request_user\<close> is the authenticated user (\<open>login_required\<close> and \<open>IsAuthenticated\<close>
  let no other request through); \<open>now\<close> is the clock read by \<open>auto_now\<close> and
  \<open>auto_now_add\<close>.
\<close>

record request =
  "method" :: string
  request_user :: nat
  POST :: QueryDict
  GET :: QueryDict
  is_ajax :: bool
  now :: nat

datatype response =
    Redirect string
  | Render_form_design "FormField list"
  | Render_employee_create "FormField list"
  | Render_employee_list "Employee list" "FormField list" string
  | Render_employee_edit Employee "FormField list"
  | JsonResponse string nat
  | Response_fields "FormField list"
  | Response_employees "Employee list"
  | Response_employee Employee
  | Response_no_content

text \<open>
  A view answers with a response or raises, and leaves a database behind in both cases
  (the writes made before an exception stay).
\<close>

type_synonym outcome = "(error + response) \<times> database"

section \<open>Queries\<close>

text \<open>
  \<open>FormField.objects.filter(created_by=user)\<close>; \<open>Meta.ordering = ['order']\<close> sorts every
  such query by \<open>order\<close>. Rows of equal \<open>order\<close> are left in table order.
\<close>

definition FormField_objects_filter :: "database \<Rightarrow> nat \<Rightarrow> FormField list" where
  "FormField_objects_filter db u =
     sort_key order (filter (\<lambda>f. created_by f = u) (form_fields db))"

text \<open>\<open>Employee.objects.filter(user=user)\<close>\<close>

definition Employee_objects_filter :: "database \<Rightarrow> nat \<Rightarrow> Employee list" where
  "Employee_objects_filter db u = filter (\<lambda>e. user e = u) (employees db)"

text \<open>\<open>Employee.objects.get(pk=pk, user=user)\<close>\<close>

definition Employee_objects_get :: "database \<Rightarrow> nat \<Rightarrow> nat \<Rightarrow> error + Employee" where
  "Employee_objects_get db pk u =
     (case filter (\<lambda>e. emp_id e = pk \<and> user e = u) (employees db) of
        [] \<Rightarrow> Inl DoesNotExist
      | [e] \<Rightarrow> Inr e
      | _ \<Rightarrow> Inl MultipleObjectsReturned)"

text \<open>
  The integers that a statement can hand to the database are those of 64 bits, signed;
  binding any other integer to a statement raises \<open>OverflowError\<close> before the statement
  runs.
\<close>

definition sqlite_integer :: "int \<Rightarrow> bool" where
  "sqlite_integer k \<longleftrightarrow> - 9223372036854775808 \<le> k \<and> k \<le> 9223372036854775807"

text \<open>
  \<open>FormField.objects.create(label=..., field_type=..., required=..., created_by=...)\<close>.
  \<open>label\<close> and \<open>field_type\<close> are \<open>NOT NULL\<close> columns; \<open>create\<close> runs no validators, so
  the choices of \<open>field_type\<close> are not looked at. \<open>ord\<close> is the \<open>order\<close> given by the caller,
  the column default 0 when there is none. \<open>order\<close> is a \<open>PositiveIntegerField\<close>: the column
  carries the constraint \<open>order >= 0\<close>, and a row that breaks it is refused with
  \<open>IntegrityError\<close>.
\<close>

definition FormField_objects_create ::
  "database \<Rightarrow> string option \<Rightarrow> string option \<Rightarrow> bool \<Rightarrow> int option \<Rightarrow> nat \<Rightarrow> nat
     \<Rightarrow> error + database" where
  "FormField_objects_create db lbl ftype req ord u t =
     (let n = (case ord of None \<Rightarrow> 0 | Some n \<Rightarrow> n) in
      if \<not> sqlite_integer n then Inl OverflowError
      else if n < 0 then Inl IntegrityError
      else case (lbl, ftype) of
        (Some l, Some ft) \<Rightarrow>
          Inr (db\<lparr>form_fields := form_fields db @
                    [\<lparr>field_id = next_field_id db, label = l, field_type = ft, required = req,
                      order = nat n, created_by = u, created_at = t\<rparr>],
                  next_field_id := Suc (next_field_id db)\<rparr>)
      | _ \<Rightarrow> Inl IntegrityError)"

text \<open>
  \<open>Employee.objects.create(user=user, fields=fields)\<close>. The one-to-one column \<open>user\<close> is
  unique: a second row for the same user is refused by the database.
\<close>

definition Employee_objects_create ::
  "database \<Rightarrow> nat \<Rightarrow> fields_dict \<Rightarrow> nat \<Rightarrow> error + database" where
  "Employee_objects_create db u fs t =
     (if \<exists>e \<in> set (employees db). user e = u then Inl IntegrityError
      else Inr (db\<lparr>employees := employees db @
                     [\<lparr>emp_id = next_emp_id db, user = u, emp_fields = fs,
                       emp_created_at = t, updated_at = t\<rparr>],
                   next_emp_id := Suc (next_emp_id db)\<rparr>))"

section \<open>Building the values of a record\<close>

text \<open>Python's \<open>str\<close> of a non-negative integer, for the f-string \<open>f'field_{field.id}'\<close>.\<close>

definition digit_char :: "nat \<Rightarrow> char" where
  "digit_char d = char_of (48 + d)"

fun str_nat :: "nat \<Rightarrow> string" where
  "str_nat n = (if n < 10 then [digit_char n] else str_nat (n div 10) @ [digit_char (n mod 10)])"

declare str_nat.simps [simp del]

definition field_key :: "FormField \<Rightarrow> string" where
  "field_key field = ''field_'' @ str_nat (field_id field)"

text \<open>
  The loop of \<open>employee_create_view\<close> and of \<open>employee_edit_view\<close>:
  \<^verbatim>\<open>
  for field in form_fields:
      field_value = request.POST.get(f'field_{field.id}')
      fields[field.label] = {'value': field_value, 'type': field.field_type}
  \<close>
\<close>

fun collect_fields :: "QueryDict \<Rightarrow> FormField list \<Rightarrow> fields_dict \<Rightarrow> fields_dict" where
  "collect_fields post [] flds = flds"
| "collect_fields post (field # rest) flds =
     collect_fields post rest
       (AList.update (label field) (QueryDict_get post (field_key field), field_type field) flds)"

section \<open>The HTML views (employee/views.py)\<close>

text \<open>\<open>form_design_view\<close>: a POST defines a field, anything else shows the owner's fields.\<close>

definition form_design_view :: "request \<Rightarrow> database \<Rightarrow> outcome" where
  "form_design_view request db =
     (if method request = ''POST'' then
        (let lbl = QueryDict_get (POST request) ''label'';
             ftype = QueryDict_get (POST request) ''field_type'';
             req = (QueryDict_get (POST request) ''required'' = Some ''on'')
         in case FormField_objects_create db lbl ftype req None (request_user request) (now request) of
              Inl e \<Rightarrow> (Inl e, db)
            | Inr db' \<Rightarrow> (Inr (Redirect ''form_design''), db'))
      else (Inr (Render_form_design (FormField_objects_filter db (request_user request))), db))"

text \<open>\<open>employee_create_view\<close>\<close>

definition employee_create_view :: "request \<Rightarrow> database \<Rightarrow> outcome" where
  "employee_create_view request db =
     (if method request = ''POST'' then
        (let form_fields = FormField_objects_filter db (request_user request);
             flds = collect_fields (POST request) form_fields []
         in case Employee_objects_create db (request_user request) flds (now request) of
              Inl e \<Rightarrow> (Inl e, db)
            | Inr db' \<Rightarrow> (Inr (Redirect ''employee_list''), db'))
      else (Inr (Render_employee_create (FormField_objects_filter db (request_user request))), db))"

text \<open>
  \<open>employee.save()\<close>: the row of the instance's primary key takes the instance's columns;
  \<open>auto_now\<close> stamps \<open>updated_at\<close>.
\<close>

definition Employee_save :: "database \<Rightarrow> Employee \<Rightarrow> nat \<Rightarrow> database" where
  "Employee_save db employee t =
     db\<lparr>employees :=
          map (\<lambda>e. if emp_id e = emp_id employee then employee\<lparr>updated_at := t\<rparr> else e)
            (employees db)\<rparr>"

text \<open>\<open>employee_edit_view\<close>: the look-up comes first, whatever the method.\<close>

definition employee_edit_view :: "request \<Rightarrow> nat \<Rightarrow> database \<Rightarrow> outcome" where
  "employee_edit_view request pk db =
     (case Employee_objects_get db pk (request_user request) of
        Inl e \<Rightarrow> (Inl e, db)
      | Inr employee \<Rightarrow>
          if method request = ''POST'' then
            (let form_fields = FormField_objects_filter db (request_user request);
                 flds = collect_fields (POST request) form_fields []
             in (Inr (Redirect ''employee_list''),
                 Employee_save db (employee\<lparr>emp_fields := flds\<rparr>) (now request)))
          else (Inr (Render_employee_edit employee
                      (FormField_objects_filter db (request_user request))), db))"

text \<open>\<open>employee_delete_view\<close>: no test of the method.\<close>

definition employee_delete_view :: "request \<Rightarrow> nat \<Rightarrow> database \<Rightarrow> outcome" where
  "employee_delete_view request pk db =
     (case Employee_objects_get db pk (request_user request) of
        Inl e \<Rightarrow> (Inl e, db)
      | Inr employee \<Rightarrow>
          (Inr (Redirect ''employee_list''),
           db\<lparr>employees := filter (\<lambda>e. emp_id e \<noteq> emp_id employee) (employees db)\<rparr>))"

subsection \<open>Search over the stored JSON\<close>

text \<open>
  The text that \<open>JSONField\<close> stores is \<open>json.dumps\<close> of the dictionary: keys in insertion
  order, \<open>", "\<close> and \<open>": "\<close> as separators, \<open>null\<close> for \<open>None\<close>, and inside a string every
  character outside the printable ASCII range, the quote and the backslash escaped.
\<close>

definition hex_digit :: "nat \<Rightarrow> char" where
  "hex_digit d = (if d < 10 then char_of (48 + d) else char_of (87 + d))"

definition json_escape_char :: "char \<Rightarrow> string" where
  "json_escape_char c =
     (let n = (of_char c :: nat) in
      if n = 34 then [CHR 0x5C, CHR 0x22]
      else if n = 92 then [CHR 0x5C, CHR 0x5C]
      else if n = 8 then [CHR 0x5C, CHR ''b'']
      else if n = 12 then [CHR 0x5C, CHR ''f'']
      else if n = 10 then [CHR 0x5C, CHR ''n'']
      else if n = 13 then [CHR 0x5C, CHR ''r'']
      else if n = 9 then [CHR 0x5C, CHR ''t'']
      else if n < 32 \<or> 126 < n then
        [CHR 0x5C, CHR ''u'', CHR ''0'', CHR ''0'', hex_digit (n div 16), hex_digit (n mod 16)]
      else [c])"

definition json_string :: "string \<Rightarrow> string" where
  "json_string s = [CHR 0x22] @ concat (map json_escape_char s) @ [CHR 0x22]"

definition json_entry :: "field_entry \<Rightarrow> string" where
  "json_entry e =
     ''{'' @ json_string ''value'' @ '': '' @
       (case fst e of None \<Rightarrow> ''null'' | Some v \<Rightarrow> json_string v) @
     '', '' @ json_string ''type'' @ '': '' @ json_string (snd e) @ ''}''"

fun json_items :: "fields_dict \<Rightarrow> string" where
  "json_items [] = []"
| "json_items [(k, e)] = json_string k @ '': '' @ json_entry e"
| "json_items ((k, e) # rest) = json_string k @ '': '' @ json_entry e @ '', '' @ json_items rest"

definition json_dumps :: "fields_dict \<Rightarrow> string" where
  "json_dumps d = ''{'' @ json_items d @ ''}''"

text \<open>
  \<open>fields__icontains=search_query\<close>: the stored text is matched against the pattern
  \<open>%search_query%\<close> (the wildcards of the term itself escaped), the case of the ASCII
  letters ignored.
\<close>

definition to_lower :: "char \<Rightarrow> char" where
  "to_lower c =
     (let n = (of_char c :: nat) in if 65 \<le> n \<and> n \<le> 90 then char_of (n + 32) else c)"

fun starts_with :: "string \<Rightarrow> string \<Rightarrow> bool" where
  "starts_with s [] = True"
| "starts_with [] (p # ps) = False"
| "starts_with (c # cs) (p # ps) = (c = p \<and> starts_with cs ps)"

fun contains :: "string \<Rightarrow> string \<Rightarrow> bool" where
  "contains [] p = (p = [])"
| "contains (c # cs) p = (starts_with (c # cs) p \<or> contains cs p)"

definition icontains :: "string \<Rightarrow> string \<Rightarrow> bool" where
  "icontains s p = contains (map to_lower s) (map to_lower p)"

text \<open>\<open>employee_list_view\<close>\<close>

definition employee_list_view :: "request \<Rightarrow> database \<Rightarrow> outcome" where
  "employee_list_view request db =
     (let employees = Employee_objects_filter db (request_user request);
          form_fields = FormField_objects_filter db (request_user request);
          search_query = QueryDict_get_default (GET request) ''search'' [];
          employees = (if search_query \<noteq> []
                       then filter (\<lambda>e. icontains (json_dumps (emp_fields e)) search_query) employees
                       else employees)
      in (Inr (Render_employee_list employees form_fields search_query), db))"

subsection \<open>Reordering\<close>

text \<open>
  \<open>FormField.objects.filter(id=k, created_by=u).update(order=idx)\<close>: the rows that the
  query matches take the order. Both \<open>k\<close> and \<open>idx\<close> are handed to the database with the
  statement.
\<close>

definition FormField_rows_updated :: "database \<Rightarrow> int \<Rightarrow> nat \<Rightarrow> nat \<Rightarrow> database" where
  "FormField_rows_updated db k u idx =
     db\<lparr>form_fields :=
          map (\<lambda>f. if int (field_id f) = k \<and> created_by f = u then f\<lparr>order := idx\<rparr> else f)
            (form_fields db)\<rparr>"

definition FormField_update_order :: "database \<Rightarrow> int \<Rightarrow> nat \<Rightarrow> nat \<Rightarrow> error + database" where
  "FormField_update_order db k u idx =
     (if \<not> sqlite_integer k \<or> \<not> sqlite_integer (int idx) then Inl OverflowError
      else Inr (FormField_rows_updated db k u idx))"

text \<open>
  The loop of \<open>update_field_order\<close> over \<open>enumerate(order)\<close>. The entries of \<open>order[]\<close> are
  strings; the query converts each to an integer and raises \<open>ValueError\<close> for a string that
  is none. That conversion belongs to the framework and is the parameter \<open>to_int\<close>. An
  exception ends the loop; what the earlier steps wrote stays.
\<close>

fun update_order_loop ::
  "(string \<Rightarrow> int option) \<Rightarrow> nat \<Rightarrow> (nat \<times> string) list \<Rightarrow> database \<Rightarrow> error option \<times> database" where
  "update_order_loop to_int u [] db = (None, db)"
| "update_order_loop to_int u ((idx, fid) # rest) db =
     (case to_int fid of
        None \<Rightarrow> (Some ValueError, db)
      | Some k \<Rightarrow>
          (case FormField_update_order db k u idx of
             Inl e \<Rightarrow> (Some e, db)
           | Inr db' \<Rightarrow> update_order_loop to_int u rest db'))"

definition update_field_order :: "(string \<Rightarrow> int option) \<Rightarrow> request \<Rightarrow> database \<Rightarrow> outcome" where
  "update_field_order to_int request db =
     (if method request = ''POST'' \<and> is_ajax request then
        (let ord = getlist (POST request) ''order[]'' in
         case update_order_loop to_int (request_user request) (enumerate 0 ord) db of
           (Some e, db') \<Rightarrow> (Inl e, db')
         | (None, db') \<Rightarrow> (Inr (JsonResponse ''success'' 200), db'))
      else (Inr (JsonResponse ''error'' 400), db))"

section \<open>The API views (employee/views.py)\<close>

text \<open>
  The generic views list their queryset and look an object up in it by primary key,
  answering 404 when it is not there. A view that does not override \<open>get_queryset\<close>
  works on its class attribute \<open>queryset\<close>.
\<close>

definition FormFieldListCreateView_get_queryset :: "request \<Rightarrow> database \<Rightarrow> FormField list" where
  "FormFieldListCreateView_get_queryset request db =
     FormField_objects_filter db (request_user request)"

definition FormFieldListCreateView_list :: "request \<Rightarrow> database \<Rightarrow> outcome" where
  "FormFieldListCreateView_list request db =
     (Inr (Response_fields (FormFieldListCreateView_get_queryset request db)), db)"

text \<open>
  \<open>perform_create\<close>: \<open>serializer.save(created_by=self.request.user)\<close> creates the row from the
  validated data; an attribute the caller did not send takes the column default. The order
  sent is any integer: the serializer puts no bound on it.
\<close>

record FormField_data =
  data_label :: string
  data_field_type :: string
  data_required :: "bool option"
  data_order :: "int option"

definition FormFieldListCreateView_perform_create ::
  "request \<Rightarrow> FormField_data \<Rightarrow> database \<Rightarrow> error + database" where
  "FormFieldListCreateView_perform_create request d db =
     FormField_objects_create db (Some (data_label d)) (Some (data_field_type d))
       (case data_required d of None \<Rightarrow> True | Some b \<Rightarrow> b) (data_order d)
       (request_user request) (now request)"

definition FormFieldRetrieveUpdateDestroyView_get_queryset ::
  "request \<Rightarrow> database \<Rightarrow> FormField list" where
  "FormFieldRetrieveUpdateDestroyView_get_queryset request db =
     FormField_objects_filter db (request_user request)"

definition FormFieldRetrieveUpdateDestroyView_get_object ::
  "request \<Rightarrow> nat \<Rightarrow> database \<Rightarrow> error + FormField" where
  "FormFieldRetrieveUpdateDestroyView_get_object request pk db =
     (case filter (\<lambda>f. field_id f = pk) (FormFieldRetrieveUpdateDestroyView_get_queryset request db) of
        [] \<Rightarrow> Inl Http404
      | [f] \<Rightarrow> Inr f
      | _ \<Rightarrow> Inl MultipleObjectsReturned)"

text \<open>
  \<open>destroy\<close>: \<open>instance.delete()\<close>. No model refers to \<open>FormField\<close>, so the deletion
  cascades to nothing.
\<close>

definition FormFieldRetrieveUpdateDestroyView_destroy ::
  "request \<Rightarrow> nat \<Rightarrow> database \<Rightarrow> outcome" where
  "FormFieldRetrieveUpdateDestroyView_destroy request pk db =
     (case FormFieldRetrieveUpdateDestroyView_get_object request pk db of
        Inl e \<Rightarrow> (Inl e, db)
      | Inr f \<Rightarrow>
          (Inr Response_no_content,
           db\<lparr>form_fields := filter (\<lambda>g. field_id g \<noteq> field_id f) (form_fields db)\<rparr>))"

text \<open>
  \<open>EmployeeListCreateView\<close> has \<open>queryset = Employee.objects.all()\<close> and no \<open>get_queryset\<close>
  of its own.
\<close>

definition EmployeeListCreateView_get_queryset :: "request \<Rightarrow> database \<Rightarrow> Employee list" where
  "EmployeeListCreateView_get_queryset request db = employees db"

definition EmployeeListCreateView_list :: "request \<Rightarrow> database \<Rightarrow> outcome" where
  "EmployeeListCreateView_list request db =
     (Inr (Response_employees (EmployeeListCreateView_get_queryset request db)), db)"

definition EmployeeRetrieveUpdateDestroyView_get_queryset ::
  "request \<Rightarrow> database \<Rightarrow> Employee list" where
  "EmployeeRetrieveUpdateDestroyView_get_queryset request db =
     Employee_objects_filter db (request_user request)"

definition EmployeeRetrieveUpdateDestroyView_get_object ::
  "request \<Rightarrow> nat \<Rightarrow> database \<Rightarrow> error + Employee" where
  "EmployeeRetrieveUpdateDestroyView_get_object request pk db =
     (case filter (\<lambda>e. emp_id e = pk) (EmployeeRetrieveUpdateDestroyView_get_queryset request db) of
        [] \<Rightarrow> Inl Http404
      | [e] \<Rightarrow> Inr e
      | _ \<Rightarrow> Inl MultipleObjectsReturned)"

section \<open>Updating a record through the API (employee/serializers.py)\<close>

text \<open>
  The validated data of \<open>UpdateUserSerializer\<close>, nested in \<open>EmployeeSerializer\<close> as \<open>user\<close>:
  a dictionary with a key for each attribute that was sent. \<open>phone\<close> and \<open>address\<close> may be
  sent as \<open>null\<close>.
\<close>

record user_data =
  ud_email :: "string option"
  ud_first_name :: "string option"
  ud_last_name :: "string option"
  ud_phone :: "string option option"
  ud_address :: "string option option"

text \<open>
  The validated data of \<open>EmployeeSerializer\<close>: the nested \<open>user\<close> and the JSON value
  \<open>fields\<close>, each there when it was sent.
\<close>

record Employee_data =
  data_user :: "user_data option"
  data_fields :: "fields_dict option"

text \<open>\<open>if user_data:\<close> a dictionary counts as true when it has a key.\<close>

definition truthy :: "user_data \<Rightarrow> bool" where
  "truthy ud \<longleftrightarrow>
     ud_email ud \<noteq> None \<or> ud_first_name ud \<noteq> None \<or> ud_last_name ud \<noteq> None
     \<or> ud_phone ud \<noteq> None \<or> ud_address ud \<noteq> None"

text \<open>
  \<open>UpdateUserSerializer(instance.user, data=user_data, partial=True).is_valid()\<close>. The
  serializer is made without a context. Its fields are gone through in the order of
  \<open>Meta.fields\<close>, \<open>email\<close> first: when the field class accepts the address, \<open>validate_email\<close>
  runs and its \<open>self.context['request']\<close> raises \<open>KeyError\<close>; otherwise the data are valid
  when every attribute sent is accepted. Whether the field class of an attribute accepts a
  value belongs to the framework and is the parameter \<open>accepts\<close>.
\<close>

definition UpdateUserSerializer_is_valid ::
  "(string \<Rightarrow> string option \<Rightarrow> bool) \<Rightarrow> user_data \<Rightarrow> error + bool" where
  "UpdateUserSerializer_is_valid accepts ud =
     (if ud_email ud \<noteq> None \<and> accepts ''email'' (ud_email ud) then Inl KeyError
      else Inr
        (ud_email ud = None
         \<and> (ud_first_name ud = None \<or> accepts ''first_name'' (ud_first_name ud))
         \<and> (ud_last_name ud = None \<or> accepts ''last_name'' (ud_last_name ud))
         \<and> (case ud_phone ud of None \<Rightarrow> True | Some v \<Rightarrow> accepts ''phone'' v)
         \<and> (case ud_address ud of None \<Rightarrow> True | Some v \<Rightarrow> accepts ''address'' v)))"

text \<open>\<open>user_serializer.save()\<close>: the attributes sent are set on the user, who is saved.\<close>

definition UpdateUserSerializer_save :: "database \<Rightarrow> nat \<Rightarrow> user_data \<Rightarrow> database" where
  "UpdateUserSerializer_save db uid ud =
     db\<lparr>users :=
          map (\<lambda>x. if user_id x = uid
                    then x\<lparr>first_name := (case ud_first_name ud of None \<Rightarrow> first_name x | Some v \<Rightarrow> v),
                           last_name := (case ud_last_name ud of None \<Rightarrow> last_name x | Some v \<Rightarrow> v),
                           phone := (case ud_phone ud of None \<Rightarrow> phone x | Some v \<Rightarrow> v),
                           address := (case ud_address ud of None \<Rightarrow> address x | Some v \<Rightarrow> v)\<rparr>
                    else x) (users db)\<rparr>"

text \<open>
  \<open>EmployeeSerializer.update(instance, validated_data)\<close>:
  \<^verbatim>\<open>
  user_data = validated_data.pop('user', None)
  if user_data:
      user_serializer = UpdateUserSerializer(instance.user, data=user_data, partial=True)
      if user_serializer.is_valid():
          user_serializer.save()
  instance.fields = validated_data.get('fields', instance.fields)
  instance.save()
  return instance
  \<close>
  \<open>save\<close> is reached with valid data only, which hold no \<open>email\<close>.
\<close>

definition EmployeeSerializer_update ::
  "(string \<Rightarrow> string option \<Rightarrow> bool) \<Rightarrow> database \<Rightarrow> Employee \<Rightarrow> Employee_data \<Rightarrow> nat
     \<Rightarrow> (error + Employee) \<times> database" where
  "EmployeeSerializer_update accepts db instance validated_data t =
     (let after_user =
            (case data_user validated_data of
               None \<Rightarrow> Inr db
             | Some user_data \<Rightarrow>
                 if truthy user_data then
                   (case UpdateUserSerializer_is_valid accepts user_data of
                      Inl e \<Rightarrow> Inl e
                    | Inr valid \<Rightarrow>
                        Inr (if valid then UpdateUserSerializer_save db (user instance) user_data
                             else db))
                 else Inr db)
      in case after_user of
           Inl e \<Rightarrow> (Inl e, db)
         | Inr db1 \<Rightarrow>
             (let instance' =
                    instance\<lparr>emp_fields := (case data_fields validated_data of
                                               None \<Rightarrow> emp_fields instance
                                             | Some flds \<Rightarrow> flds)\<rparr>
              in (Inr (instance'\<lparr>updated_at := t\<rparr>), Employee_save db1 instance' t)))"

text \<open>
  \<open>update\<close> and \<open>partial_update\<close> of \<open>EmployeeRetrieveUpdateDestroyView\<close>: the object is
  looked up in the queryset of the view, the data of the request are validated (answer 400
  when they are not valid: there are no validated data then), and the serializer is saved.
\<close>

definition EmployeeRetrieveUpdateDestroyView_update ::
  "(string \<Rightarrow> string option \<Rightarrow> bool) \<Rightarrow> request \<Rightarrow> nat \<Rightarrow> Employee_data option \<Rightarrow> database
     \<Rightarrow> outcome" where
  "EmployeeRetrieveUpdateDestroyView_update accepts request pk validated db =
     (case EmployeeRetrieveUpdateDestroyView_get_object request pk db of
        Inl e \<Rightarrow> (Inl e, db)
      | Inr instance \<Rightarrow>
          (case validated of
             None \<Rightarrow> (Inl ValidationError, db)
           | Some validated_data \<Rightarrow>
               (case EmployeeSerializer_update accepts db instance validated_data (now request) of
                  (Inl e, db') \<Rightarrow> (Inl e, db')
                | (Inr instance', db') \<Rightarrow> (Inr (Response_employee instance'), db'))))"

section \<open>Notions for stating the properties\<close>

text \<open>
  The values stored under a label are those of the last field with that label in the
  order in which the fields were gone through.
\<close>

definition last_field_wins :: "QueryDict \<Rightarrow> FormField list \<Rightarrow> fields_dict \<Rightarrow> bool" where
  "last_field_wins post fs vals \<longleftrightarrow>
     (\<forall>i<length fs. (\<forall>j. i < j \<and> j < length fs \<longrightarrow> label (fs ! j) \<noteq> label (fs ! i)) \<longrightarrow>
        map_of vals (label (fs ! i)) =
          Some (QueryDict_get post (field_key (fs ! i)), field_type (fs ! i)))"

section \<open>A small installation\<close>

text \<open>
  Two accounts, 1 and 2. Account 1 has defined two fields that share the label \<open>Name\<close>,
  account 2 one field and one record.
\<close>

definition first_user :: CustomUser where
  "first_user = \<lparr>user_id = 1, email = ''ann@example.org'', first_name = ''Ann'',
                   last_name = ''Lee'', phone = None, address = None\<rparr>"

definition second_user :: CustomUser where
  "second_user = \<lparr>user_id = 2, email = ''bob@example.org'', first_name = ''Bob'',
                    last_name = ''Ray'', phone = Some ''555'', address = None\<rparr>"

definition name_field :: FormField where
  "name_field = \<lparr>field_id = 1, label = ''Name'', field_type = ''text'', required = True,
                  order = 0, created_by = 1, created_at = 0\<rparr>"

definition second_name_field :: FormField where
  "second_name_field = \<lparr>field_id = 2, label = ''Name'', field_type = ''number'', required = True,
                         order = 1, created_by = 1, created_at = 1\<rparr>"

definition dept_field :: FormField where
  "dept_field = \<lparr>field_id = 3, label = ''Dept'', field_type = ''select'', required = False,
                  order = 0, created_by = 2, created_at = 2\<rparr>"

definition dept_record :: Employee where
  "dept_record = \<lparr>emp_id = 1, user = 2, emp_fields = [(''Dept'', (Some ''Sales'', ''select''))],
                   emp_created_at = 3, updated_at = 3\<rparr>"

definition example_db :: database where
  "example_db = \<lparr>users = [first_user, second_user],
                  form_fields = [name_field, second_name_field, dept_field],
                  employees = [dept_record], next_field_id = 4, next_emp_id = 2\<rparr>"

text \<open>Account 1 submits the record form with a value for each of its two fields.\<close>

definition create_request :: request where
  "create_request =
     \<lparr>method = ''POST'', request_user = 1,
      POST = (\<lambda>k. if k = ''field_1'' then [''Smith''] else if k = ''field_2'' then [''42''] else []),
      GET = (\<lambda>k. []), is_ajax = False, now = 7\<rparr>"

text \<open>Account 1 submits the record form with no value at all.\<close>

definition empty_create_request :: request where
  "empty_create_request =
     \<lparr>method = ''POST'', request_user = 1, POST = (\<lambda>k. []), GET = (\<lambda>k. []),
      is_ajax = False, now = 7\<rparr>"

text \<open>Account 1 updates a record through the API; every value it sends is well formed.\<close>

definition patch_request :: request where
  "patch_request =
     \<lparr>method = ''PATCH'', request_user = 1, POST = (\<lambda>k. []), GET = (\<lambda>k. []),
      is_ajax = False, now = 11\<rparr>"

definition accept_all :: "string \<Rightarrow> string option \<Rightarrow> bool" where
  "accept_all name v = True"

text \<open>What the API is sent for a record: nothing at all, and a map of the caller's making.\<close>

definition no_data :: Employee_data where
  "no_data = \<lparr>data_user = None, data_fields = None\<rparr>"

definition hobby_data :: Employee_data where
  "hobby_data = \<lparr>data_user = None,
                  data_fields = Some [(''Hobby'', (Some ''chess'', ''text''))]\<rparr>"

text \<open>The same installation after account 1 has stored a record under a label it no longer defines.\<close>

definition nick_record :: Employee where
  "nick_record = \<lparr>emp_id = 2, user = 1, emp_fields = [(''Nickname'', (Some ''Al'', ''text''))],
                   emp_created_at = 4, updated_at = 4\<rparr>"

definition edit_db :: database where
  "edit_db = example_db\<lparr>employees := [dept_record, nick_record], next_emp_id := 3\<rparr>"

text \<open>Account 1 defines a field through the form, once with a declared type and once with none of them.\<close>

definition define_request :: request where
  "define_request =
     \<lparr>method = ''POST'', request_user = 1,
      POST = (\<lambda>k. if k = ''label'' then [''Phone''] else if k = ''field_type'' then [''text'']
                  else if k = ''required'' then [''on''] else []),
      GET = (\<lambda>k. []), is_ajax = False, now = 8\<rparr>"

definition bogus_request :: request where
  "bogus_request =
     \<lparr>method = ''POST'', request_user = 1,
      POST = (\<lambda>k. if k = ''label'' then [''Phone''] else if k = ''field_type'' then [''bogus'']
                  else []),
      GET = (\<lambda>k. []), is_ajax = False, now = 8\<rparr>"

text \<open>What the API is sent for a field \<open>Phone\<close>, with the order left open.\<close>

definition phone_data :: "int option \<Rightarrow> FormField_data" where
  "phone_data ord = \<lparr>data_label = ''Phone'', data_field_type = ''text'', data_required = None,
                      data_order = ord\<rparr>"

text \<open>Account 1 asks for a list, without a search term.\<close>

definition list_request :: request where
  "list_request =
     \<lparr>method = ''GET'', request_user = 1, POST = (\<lambda>k. []), GET = (\<lambda>k. []),
      is_ajax = False, now = 9\<rparr>"




text \<open>The value of a string of ASCII digits, for reading the key of a field back.\<close>

definition digit_value :: "char \<Rightarrow> nat option" where
  "digit_value c =
     (let n = (of_char c :: nat) in if 48 \<le> n \<and> n \<le> 57 then Some (n - 48) else None)"

fun decimal_from :: "int \<Rightarrow> string \<Rightarrow> int option" where
  "decimal_from acc [] = Some acc"
| "decimal_from acc (c # cs) =
     (case digit_value c of None \<Rightarrow> None | Some d \<Rightarrow> decimal_from (10 * acc + int d) cs)"

definition decimal :: "string \<Rightarrow> int option" where
  "decimal s = (if s = [] then None else decimal_from 0 s)"

text \<open>
  The conversion of the requests below: Python's \<open>int\<close> of a string. White space around the
  number is dropped, a sign may come first, and the digits may be set apart by single
  underscores; any other string is refused. (An interpreter that limits the number of digits
  refuses longer strings than the ones met here.)
\<close>

definition is_space :: "char \<Rightarrow> bool" where
  "is_space c =
     (let n = (of_char c :: nat)
      in (9 \<le> n \<and> n \<le> 13) \<or> (28 \<le> n \<and> n \<le> 32) \<or> n = 133 \<or> n = 160)"

definition strip :: "string \<Rightarrow> string" where
  "strip s = rev (dropWhile is_space (rev (dropWhile is_space s)))"

fun digits_from :: "int \<Rightarrow> string \<Rightarrow> int option" where
  "digits_from acc [] = Some acc"
| "digits_from acc [c] =
     (case digit_value c of None \<Rightarrow> None | Some v \<Rightarrow> Some (10 * acc + int v))"
| "digits_from acc (c # d # ds) =
     (if c = CHR ''_'' then
        (case digit_value d of None \<Rightarrow> None | Some v \<Rightarrow> digits_from (10 * acc + int v) ds)
      else
        (case digit_value c of None \<Rightarrow> None | Some v \<Rightarrow> digits_from (10 * acc + int v) (d # ds)))"

definition unsigned :: "string \<Rightarrow> int option" where
  "unsigned s =
     (case s of
        [] \<Rightarrow> None
      | c # cs \<Rightarrow> (case digit_value c of None \<Rightarrow> None | Some v \<Rightarrow> digits_from (int v) cs))"

definition python_int :: "string \<Rightarrow> int option" where
  "python_int s =
     (case strip s of
        [] \<Rightarrow> None
      | c # cs \<Rightarrow>
          if c = CHR ''-'' then map_option uminus (unsigned cs)
          else if c = CHR ''+'' then unsigned cs
          else unsigned (c # cs))"



text \<open>A sequence that names a field twice.\<close>

definition repeated_request :: request where
  "repeated_request =
     \<lparr>method = ''POST'', request_user = 1,
      POST = (\<lambda>k. if k = ''order[]'' then [''1'', ''2'', ''1''] else []),
      GET = (\<lambda>k. []), is_ajax = True, now = 10\<rparr>"

section \<open>Properties\<close>

subsection \<open>Keys and values of the collected map\<close>

lemma digit_char_values:
  "digit_char 0 = CHR ''0''" "digit_char (Suc 0) = CHR ''1''" "digit_char 1 = CHR ''1''"
  "digit_char 2 = CHR ''2''" "digit_char 3 = CHR ''3''" "digit_char 4 = CHR ''4''"
  "digit_char 5 = CHR ''5''" "digit_char 6 = CHR ''6''" "digit_char 7 = CHR ''7''"
  "digit_char 8 = CHR ''8''" "digit_char 9 = CHR ''9''"
  by code_simp+

lemma collect_fields_map_of_other:
  "l \<notin> label ` set fs \<Longrightarrow> map_of (collect_fields post fs acc) l = map_of acc l"
  by (induction fs arbitrary: acc) (auto simp: update_conv')

lemma collect_fields_map_of_last:
  "i < length fs \<Longrightarrow> (\<forall>j. i < j \<and> j < length fs \<longrightarrow> label (fs ! j) \<noteq> label (fs ! i)) \<Longrightarrow>
   map_of (collect_fields post fs acc) (label (fs ! i)) =
     Some (QueryDict_get post (field_key (fs ! i)), field_type (fs ! i))"
proof (induction fs arbitrary: acc i)
  case Nil
  then show ?case by simp
next
  case (Cons f fs)
  show ?case
  proof (cases i)
    case 0
    have "label f \<notin> label ` set fs"
    proof
      assume "label f \<in> label ` set fs"
      then obtain g where g: "g \<in> set fs" "label g = label f" by auto
      then obtain j where j: "j < length fs" "fs ! j = g" by (auto simp: in_set_conv_nth)
      have "i < Suc j \<and> Suc j < length (f # fs)" using 0 j by simp
      then have "label ((f # fs) ! Suc j) \<noteq> label ((f # fs) ! i)" using Cons.prems(2) by blast
      then show False using 0 j g by simp
    qed
    then have "map_of (collect_fields post fs
        (AList.update (label f) (QueryDict_get post (field_key f), field_type f) acc)) (label f)
      = map_of (AList.update (label f) (QueryDict_get post (field_key f), field_type f) acc) (label f)"
      by (rule collect_fields_map_of_other)
    then show ?thesis using 0 by (simp add: update_conv')
  next
    case (Suc k)
    have k: "k < length fs" using Cons.prems(1) Suc by simp
    have "\<forall>j. k < j \<and> j < length fs \<longrightarrow> label (fs ! j) \<noteq> label (fs ! k)"
    proof (intro allI impI)
      fix j assume "k < j \<and> j < length fs"
      then have "i < Suc j \<and> Suc j < length (f # fs)" using Suc by simp
      then have "label ((f # fs) ! Suc j) \<noteq> label ((f # fs) ! i)" using Cons.prems(2) by blast
      then show "label (fs ! j) \<noteq> label (fs ! k)" using Suc by simp
    qed
    from Cons.IH [OF k this] show ?thesis using Suc by simp
  qed
qed

lemma update_keys_image:
  "fst ` set (AList.update k v al) = insert k (fst ` set al)"
  by (induction al) auto

lemma collect_fields_keys:
  "fst ` set (collect_fields post fs acc) = fst ` set acc \<union> label ` set fs"
proof (induction fs arbitrary: acc)
  case Nil
  then show ?case by simp
next
  case (Cons f fs)
  show ?case by (simp add: Cons.IH update_keys_image)
qed




lemma set_FormField_objects_filter:
  "set (FormField_objects_filter db u) = {f \<in> set (form_fields db). created_by f = u}"
  by (auto simp: FormField_objects_filter_def)

lemma collect_fields_last_field_wins:
  "last_field_wins post fs (collect_fields post fs acc)"
  unfolding last_field_wins_def using collect_fields_map_of_last by blast

lemma collect_fields_map_of_from:
  "l \<in> label ` set fs \<Longrightarrow>
   \<exists>f\<in>set fs. label f = l \<and>
     map_of (collect_fields post fs acc) l = Some (QueryDict_get post (field_key f), field_type f)"
proof (induction fs arbitrary: acc)
  case Nil
  then show ?case by simp
next
  case (Cons f fs)
  show ?case
  proof (cases "l \<in> label ` set fs")
    case True
    from Cons.IH [OF True] show ?thesis by auto
  next
    case False
    then have "l = label f" using Cons.prems by auto
    moreover have "map_of (collect_fields post (f # fs) acc) l =
        map_of (AList.update (label f) (QueryDict_get post (field_key f), field_type f) acc) l"
      using collect_fields_map_of_other [OF False] by simp
    ultimately show ?thesis by (simp add: update_conv')
  qed
qed

lemma collect_fields_no_value:
  assumes "\<forall>f\<in>set fs. post (field_key f) = []" and "g \<in> set fs"
  shows "\<exists>t. map_of (collect_fields post fs acc) (label g) = Some (None, t)"
proof -
  have "label g \<in> label ` set fs" using assms(2) by simp
  from collect_fields_map_of_from [OF this]
  obtain f where f: "f \<in> set fs"
    "map_of (collect_fields post fs acc) (label g) = Some (QueryDict_get post (field_key f), field_type f)"
    by blast
  have "QueryDict_get post (field_key f) = None"
    using assms(1) f(1) by (simp add: QueryDict_get_def)
  then show ?thesis using f(2) by simp
qed

lemma collect_fields_absent:
  "l \<notin> label ` set fs \<Longrightarrow> map_of (collect_fields post fs []) l = None"
  by (simp add: collect_fields_map_of_other)

lemma employee_create_view_POST:
  assumes "method request = ''POST''"
    and "\<forall>e \<in> set (employees db). user e \<noteq> request_user request"
  shows "employee_create_view request db =
    (Inr (Redirect ''employee_list''),
     db\<lparr>employees := employees db @
          [\<lparr>emp_id = next_emp_id db, user = request_user request,
            emp_fields = collect_fields (POST request) (FormField_objects_filter db (request_user request)) [],
            emp_created_at = now request, updated_at = now request\<rparr>],
        next_emp_id := Suc (next_emp_id db)\<rparr>)"
  using assms by (auto simp: employee_create_view_def Employee_objects_create_def Let_def)

lemma Employee_objects_get_Inr:
  assumes "Employee_objects_get db pk u = Inr e"
  shows "e \<in> set (employees db) \<and> emp_id e = pk \<and> user e = u"
proof -
  have "filter (\<lambda>e. emp_id e = pk \<and> user e = u) (employees db) = [e]"
    using assms by (auto simp: Employee_objects_get_def split: list.splits)
  then have "e \<in> set (filter (\<lambda>e. emp_id e = pk \<and> user e = u) (employees db))" by simp
  then show ?thesis by simp
qed

lemma Employee_objects_get_none:
  assumes "\<forall>e\<in>set (employees db). \<not> (emp_id e = pk \<and> user e = u)"
  shows "Employee_objects_get db pk u = Inl DoesNotExist"
proof -
  have "filter (\<lambda>e. emp_id e = pk \<and> user e = u) (employees db) = []"
    using assms by (auto simp: filter_empty_conv)
  then show ?thesis by (simp add: Employee_objects_get_def)
qed

lemma filter_unique_key:
  "distinct (map k xs) \<Longrightarrow> x \<in> set xs \<Longrightarrow> P x \<Longrightarrow> filter (\<lambda>y. k y = k x \<and> P y) xs = [x]"
proof (induction xs)
  case Nil
  then show ?case by simp
next
  case (Cons a xs)
  show ?case
  proof (cases "a = x")
    case True
    have "k x \<notin> k ` set xs" using Cons.prems(1) True by simp
    then have "\<forall>y\<in>set xs. k y \<noteq> k x" by (metis imageI)
    then have "filter (\<lambda>y. k y = k x \<and> P y) xs = []"
      by (simp add: filter_empty_conv)
    then show ?thesis using True Cons.prems(3) by simp
  next
    case False
    then have "x \<in> set xs" using Cons.prems(2) by simp
    moreover have "k a \<noteq> k x" using Cons.prems(1) \<open>x \<in> set xs\<close> by auto
    ultimately show ?thesis using Cons by simp
  qed
qed

lemma Employee_objects_get_found:
  assumes "distinct (map emp_id (employees db))" and "e \<in> set (employees db)" and "user e = u"
  shows "Employee_objects_get db (emp_id e) u = Inr e"
proof -
  have "filter (\<lambda>y. emp_id y = emp_id e \<and> user y = u) (employees db) = [e]"
    using filter_unique_key [of emp_id "employees db" e "\<lambda>y. user y = u"] assms by simp
  then show ?thesis by (simp add: Employee_objects_get_def)
qed

lemma employee_edit_view_POST:
  assumes "method request = ''POST''"
    and "Employee_objects_get db pk (request_user request) = Inr e"
  shows "employee_edit_view request pk db =
    (Inr (Redirect ''employee_list''),
     db\<lparr>employees :=
          map (\<lambda>x. if emp_id x = pk
                    then e\<lparr>emp_fields := collect_fields (POST request)
                             (FormField_objects_filter db (request_user request)) [],
                           updated_at := now request\<rparr>
                    else x) (employees db)\<rparr>)"
  using assms Employee_objects_get_Inr [OF assms(2)]
  by (simp add: employee_edit_view_def Employee_save_def Let_def)

lemma created_values:
  assumes "method request = ''POST''"
  shows "emp_fields (last (employees (snd (employee_create_view request (db\<lparr>employees := []\<rparr>))))) =
    collect_fields (POST request) (FormField_objects_filter db (request_user request)) []"
proof -
  have "\<forall>e \<in> set (employees (db\<lparr>employees := []\<rparr>)). user e \<noteq> request_user request" by simp
  from employee_create_view_POST [OF assms this] show ?thesis
    by (simp add: FormField_objects_filter_def)
qed

text \<open>
  The key \<open>field_<id>\<close> names one field: the decimal text of an id reads back as the id.
\<close>

lemma digit_value_digit_char: "d < 10 \<Longrightarrow> digit_value (digit_char d) = Some d"
  by (simp add: digit_value_def digit_char_def Let_def)

lemma decimal_from_append:
  "decimal_from acc (xs @ ys) =
     (case decimal_from acc xs of None \<Rightarrow> None | Some v \<Rightarrow> decimal_from v ys)"
  by (induction xs arbitrary: acc) (auto split: option.splits)

lemma decimal_from_str_nat: "decimal_from 0 (str_nat n) = Some (int n)"
proof (induction n rule: str_nat.induct)
  case (1 n)
  show ?case
  proof (cases "n < 10")
    case True
    then show ?thesis by (simp add: str_nat.simps [of n] digit_value_digit_char)
  next
    case False
    have "n mod 10 < 10" by simp
    then have d: "digit_value (digit_char (n mod 10)) = Some (n mod 10)"
      by (rule digit_value_digit_char)
    have "int n = 10 * int (n div 10) + int (n mod 10)"
      by (metis mult_div_mod_eq of_nat_add of_nat_mult of_nat_numeral)
    then show ?thesis
      using False 1 d by (simp add: str_nat.simps [of n] decimal_from_append)
  qed
qed

lemma str_nat_not_empty: "str_nat n \<noteq> []"
  by (simp add: str_nat.simps [of n])

lemma decimal_str_nat: "decimal (str_nat n) = Some (int n)"
  by (simp add: decimal_def str_nat_not_empty decimal_from_str_nat)

lemma field_key_inj: "field_key f = field_key g \<Longrightarrow> field_id f = field_id g"
proof -
  assume "field_key f = field_key g"
  then have "str_nat (field_id f) = str_nat (field_id g)" by (simp add: field_key_def)
  then have "decimal (str_nat (field_id f)) = decimal (str_nat (field_id g))" by simp
  then show ?thesis by (simp add: decimal_str_nat)
qed

subsection \<open>Creating a record\<close>

text \<open>
  C1, as amended. For a POST of an owner who has no record yet, \<open>employee_create_view\<close>
  succeeds and appends one record of that owner. Its values map has exactly the labels of
  the owner's current fields as keys, and under each label the pair (submitted value of the
  field's key or \<open>None\<close>, type of the field) of the last field that bears the label; for a
  label borne by one field only this is the pair of that field. When nothing is submitted
  every value is \<open>None\<close>. The flag \<open>required\<close> plays no part: the statement holds whatever
  its value.
\<close>

theorem createRecord_values:
  assumes "method request = ''POST''"
    and "\<forall>e \<in> set (employees db). user e \<noteq> request_user request"
  shows "let fs = FormField_objects_filter db (request_user request);
             db' = snd (employee_create_view request db);
             new = last (employees db');
             vals = emp_fields new
         in fst (employee_create_view request db) = Inr (Redirect ''employee_list'')
          \<and> employees db' = employees db @ [new]
          \<and> user new = request_user request
          \<and> set fs = {f \<in> set (form_fields db). created_by f = request_user request}
          \<and> fst ` set vals = label ` set fs
          \<and> last_field_wins (POST request) fs vals
          \<and> ((\<forall>f\<in>set fs. POST request (field_key f) = []) \<longrightarrow>
               (\<forall>f\<in>set fs. \<exists>t. map_of vals (label f) = Some (None, t)))"
  unfolding Let_def employee_create_view_POST [OF assms]
  by (simp add: collect_fields_keys collect_fields_last_field_wins collect_fields_no_value
      set_FormField_objects_filter)

theorem createRecord_values_witness:
  "method create_request = ''POST'' \<and> method empty_create_request = ''POST''
   \<and> request_user create_request = 1 \<and> request_user empty_create_request = 1
   \<and> map user (employees example_db) = [2]
   \<and> map required (FormField_objects_filter example_db 1) = [True, True]
   \<and> fst (employee_create_view create_request example_db) = Inr (Redirect ''employee_list'')
   \<and> last_field_wins (POST create_request) (FormField_objects_filter example_db 1)
        (emp_fields (last (employees (snd (employee_create_view create_request example_db)))))
   \<and> fst (employee_create_view empty_create_request example_db) = Inr (Redirect ''employee_list'')
   \<and> fst (the (map_of
        (emp_fields (last (employees (snd (employee_create_view empty_create_request example_db)))))
        ''Name'')) = None"
proof -
  let ?fs = "FormField_objects_filter example_db 1"
  let ?vals = "emp_fields (last (employees (snd (employee_create_view empty_create_request example_db))))"
  have h1: "method create_request = ''POST''" "method empty_create_request = ''POST''"
    by (simp_all add: create_request_def empty_create_request_def)
  have u: "request_user create_request = 1" "request_user empty_create_request = 1"
    by (simp_all add: create_request_def empty_create_request_def)
  have us: "map user (employees example_db) = [2]"
    by (simp add: example_db_def dept_record_def)
  have h2: "\<forall>e\<in>set (employees example_db). user e \<noteq> request_user create_request"
    "\<forall>e\<in>set (employees example_db). user e \<noteq> request_user empty_create_request"
    by (simp_all add: example_db_def dept_record_def create_request_def empty_create_request_def)
  have r: "map required ?fs = [True, True]"
    by (simp add: FormField_objects_filter_def example_db_def name_field_def
        second_name_field_def dept_field_def)
  have a: "fst (employee_create_view create_request example_db) = Inr (Redirect ''employee_list'')
      \<and> last_field_wins (POST create_request) ?fs
        (emp_fields (last (employees (snd (employee_create_view create_request example_db)))))"
    using createRecord_values [OF h1(1) h2(1)] by (simp add: Let_def u)
  have unsent: "\<forall>f\<in>set ?fs. POST empty_create_request (field_key f) = []"
    by (simp add: empty_create_request_def)
  have mem: "name_field \<in> set ?fs" "label name_field = ''Name''"
    by (simp_all add: FormField_objects_filter_def example_db_def name_field_def
        second_name_field_def dept_field_def)
  note c = createRecord_values [OF h1(2) h2(2), unfolded Let_def u(2)]
  have b: "fst (employee_create_view empty_create_request example_db) = Inr (Redirect ''employee_list'')"
    using c by (elim conjE)
  have "(\<forall>f\<in>set ?fs. POST empty_create_request (field_key f) = []) \<longrightarrow>
      (\<forall>f\<in>set ?fs. \<exists>t. map_of ?vals (label f) = Some (None, t))"
    using c by (elim conjE)
  then have "\<forall>f\<in>set ?fs. \<exists>t. map_of ?vals (label f) = Some (None, t)"
    using unsent by blast
  then obtain t where "map_of ?vals ''Name'' = Some (None, t)" using mem by metis
  then have "fst (the (map_of ?vals ''Name'')) = None" by simp
  then show ?thesis using h1 u us r a b by simp
qed

text \<open>
  C1 as stated fails where two fields share a label: the first field \<open>Name\<close> was submitted
  \<open>Smith\<close>, and the record holds \<open>42\<close> of type \<open>number\<close> under \<open>Name\<close>.
\<close>

theorem createRecord_values_counterexample:
  "fst (employee_create_view create_request example_db) = Inr (Redirect ''employee_list'')
   \<and> name_field \<in> set (FormField_objects_filter example_db (request_user create_request))
   \<and> QueryDict_get (POST create_request) (field_key name_field) = Some ''Smith''
   \<and> map_of (emp_fields (last (employees (snd (employee_create_view create_request example_db)))))
        (label name_field) = Some (Some ''42'', ''number'')"
  by (simp add: employee_create_view_def Employee_objects_create_def FormField_objects_filter_def
      create_request_def example_db_def dept_record_def name_field_def second_name_field_def
      dept_field_def QueryDict_get_def field_key_def str_nat.simps digit_char_values Let_def)

subsection \<open>Updating a record\<close>

lemma EmployeeRetrieveUpdateDestroyView_get_object_none:
  assumes "\<forall>e\<in>set (employees db). \<not> (emp_id e = pk \<and> user e = request_user r)"
  shows "EmployeeRetrieveUpdateDestroyView_get_object r pk db = Inl Http404"
proof -
  have "filter (\<lambda>e. emp_id e = pk) (filter (\<lambda>e. user e = request_user r) (employees db)) = []"
    using assms by (auto simp: filter_empty_conv)
  then show ?thesis
    by (simp add: EmployeeRetrieveUpdateDestroyView_get_object_def
        EmployeeRetrieveUpdateDestroyView_get_queryset_def Employee_objects_filter_def)
qed

lemma EmployeeRetrieveUpdateDestroyView_get_object_found:
  assumes "distinct (map emp_id (employees db))" and "e \<in> set (employees db)"
    and "user e = request_user r"
  shows "EmployeeRetrieveUpdateDestroyView_get_object r (emp_id e) db = Inr e"
proof -
  have "filter (\<lambda>y. emp_id y = emp_id e \<and> user y = request_user r) (employees db) = [e]"
    using filter_unique_key [of emp_id "employees db" e "\<lambda>y. user y = request_user r"] assms
    by simp
  moreover have "filter (\<lambda>y. emp_id y = emp_id e)
        (filter (\<lambda>y. user y = request_user r) (employees db))
      = filter (\<lambda>y. emp_id y = emp_id e \<and> user y = request_user r) (employees db)"
    by (simp add: conj_commute)
  ultimately show ?thesis
    by (simp add: EmployeeRetrieveUpdateDestroyView_get_object_def
        EmployeeRetrieveUpdateDestroyView_get_queryset_def Employee_objects_filter_def)
qed

lemma UpdateUserSerializer_save_frame:
  "employees (UpdateUserSerializer_save db uid ud) = employees db"
  "form_fields (UpdateUserSerializer_save db uid ud) = form_fields db"
  by (simp_all add: UpdateUserSerializer_save_def)

lemma EmployeeSerializer_update_effect:
  assumes "case data_user d of None \<Rightarrow> True | Some ud \<Rightarrow> ud_email ud = None"
  shows "fst (EmployeeSerializer_update accepts db e d t) =
      Inr (e\<lparr>emp_fields := (case data_fields d of None \<Rightarrow> emp_fields e | Some m \<Rightarrow> m),
             updated_at := t\<rparr>)
    \<and> employees (snd (EmployeeSerializer_update accepts db e d t)) =
        map (\<lambda>x. if emp_id x = emp_id e
                  then e\<lparr>emp_fields := (case data_fields d of None \<Rightarrow> emp_fields e | Some m \<Rightarrow> m),
                         updated_at := t\<rparr>
                  else x) (employees db)
    \<and> form_fields (snd (EmployeeSerializer_update accepts db e d t)) = form_fields db"
proof (cases "data_user d")
  case None
  then show ?thesis
    by (simp add: EmployeeSerializer_update_def Employee_save_def Let_def)
next
  case (Some ud)
  then have "ud_email ud = None" using assms by simp
  then have "UpdateUserSerializer_is_valid accepts ud =
      Inr ((ud_first_name ud = None \<or> accepts ''first_name'' (ud_first_name ud))
         \<and> (ud_last_name ud = None \<or> accepts ''last_name'' (ud_last_name ud))
         \<and> (case ud_phone ud of None \<Rightarrow> True | Some v \<Rightarrow> accepts ''phone'' v)
         \<and> (case ud_address ud of None \<Rightarrow> True | Some v \<Rightarrow> accepts ''address'' v))"
    by (simp add: UpdateUserSerializer_is_valid_def)
  then show ?thesis using Some
    by (simp add: EmployeeSerializer_update_def Employee_save_def Let_def
        UpdateUserSerializer_save_frame)
qed

text \<open>
  C7, as amended. Both ways of updating raise a not-found error and change nothing when no
  record with the given primary key belongs to the owner. When the owner has that record:
  a POST to \<open>employee_edit_view\<close> replaces its values map by the map that
  \<open>employee_create_view\<close> builds from the same submission and the owner's current fields,
  so that a label that no current field bears has no entry in the new map; an update
  through the API, whose data hold no email for the user, replaces the values map by the map
  that was sent, as it was sent, and leaves it as it is when none was sent. In both
  cases the other records and the fields stay.
\<close>

theorem updateRecord_full_replace:
  assumes "method request = ''POST''"
  shows "((\<forall>e\<in>set (employees db). \<not> (emp_id e = pk \<and> user e = request_user request)) \<longrightarrow>
            employee_edit_view request pk db = (Inl DoesNotExist, db))
      \<and> (\<forall>e. distinct (map emp_id (employees db)) \<and> e \<in> set (employees db) \<and> emp_id e = pk
              \<and> user e = request_user request \<longrightarrow>
           (let fs = FormField_objects_filter db (request_user request);
                created = emp_fields (last (employees
                            (snd (employee_create_view request (db\<lparr>employees := []\<rparr>)))));
                db' = snd (employee_edit_view request pk db)
            in fst (employee_edit_view request pk db) = Inr (Redirect ''employee_list'')
             \<and> employees db' =
                 map (\<lambda>x. if emp_id x = pk then e\<lparr>emp_fields := created, updated_at := now request\<rparr>
                           else x) (employees db)
             \<and> form_fields db' = form_fields db
             \<and> last_field_wins (POST request) fs created
             \<and> (\<forall>l. l \<notin> label ` set fs \<longrightarrow> map_of created l = None)))
      \<and> ((\<forall>e\<in>set (employees db). \<not> (emp_id e = pk \<and> user e = request_user r)) \<longrightarrow>
            EmployeeRetrieveUpdateDestroyView_update accepts r pk v db = (Inl Http404, db))
      \<and> (\<forall>e. distinct (map emp_id (employees db)) \<and> e \<in> set (employees db) \<and> emp_id e = pk
              \<and> user e = request_user r
              \<and> (case data_user d of None \<Rightarrow> True | Some ud \<Rightarrow> ud_email ud = None) \<longrightarrow>
           (let sent = (case data_fields d of None \<Rightarrow> emp_fields e | Some m \<Rightarrow> m);
                db' = snd (EmployeeRetrieveUpdateDestroyView_update accepts r pk (Some d) db)
            in fst (EmployeeRetrieveUpdateDestroyView_update accepts r pk (Some d) db)
                 = Inr (Response_employee (e\<lparr>emp_fields := sent, updated_at := now r\<rparr>))
             \<and> employees db' =
                 map (\<lambda>x. if emp_id x = pk then e\<lparr>emp_fields := sent, updated_at := now r\<rparr>
                           else x) (employees db)
             \<and> form_fields db' = form_fields db))"
proof (intro conjI impI allI)
  assume "\<forall>e\<in>set (employees db). \<not> (emp_id e = pk \<and> user e = request_user request)"
  then show "employee_edit_view request pk db = (Inl DoesNotExist, db)"
    by (simp add: employee_edit_view_def Employee_objects_get_none)
next
  fix e
  assume e: "distinct (map emp_id (employees db)) \<and> e \<in> set (employees db) \<and> emp_id e = pk
              \<and> user e = request_user request"
  then have "Employee_objects_get db pk (request_user request) = Inr e"
    using Employee_objects_get_found [of db e "request_user request"] by auto
  from employee_edit_view_POST [OF assms this]
  show "let fs = FormField_objects_filter db (request_user request);
                created = emp_fields (last (employees
                            (snd (employee_create_view request (db\<lparr>employees := []\<rparr>)))));
                db' = snd (employee_edit_view request pk db)
            in fst (employee_edit_view request pk db) = Inr (Redirect ''employee_list'')
             \<and> employees db' =
                 map (\<lambda>x. if emp_id x = pk then e\<lparr>emp_fields := created, updated_at := now request\<rparr>
                           else x) (employees db)
             \<and> form_fields db' = form_fields db
             \<and> last_field_wins (POST request) fs created
             \<and> (\<forall>l. l \<notin> label ` set fs \<longrightarrow> map_of created l = None)"
    by (simp add: Let_def created_values [OF assms] collect_fields_last_field_wins
        collect_fields_absent)
next
  assume "\<forall>e\<in>set (employees db). \<not> (emp_id e = pk \<and> user e = request_user r)"
  then show "EmployeeRetrieveUpdateDestroyView_update accepts r pk v db = (Inl Http404, db)"
    by (simp add: EmployeeRetrieveUpdateDestroyView_update_def
        EmployeeRetrieveUpdateDestroyView_get_object_none)
next
  fix e
  assume e: "distinct (map emp_id (employees db)) \<and> e \<in> set (employees db) \<and> emp_id e = pk
              \<and> user e = request_user r
              \<and> (case data_user d of None \<Rightarrow> True | Some ud \<Rightarrow> ud_email ud = None)"
  then have got: "EmployeeRetrieveUpdateDestroyView_get_object r pk db = Inr e"
    using EmployeeRetrieveUpdateDestroyView_get_object_found [of db e r] by auto
  have nomail: "case data_user d of None \<Rightarrow> True | Some ud \<Rightarrow> ud_email ud = None"
    using e by simp
  note eff = EmployeeSerializer_update_effect [OF nomail, of accepts db e "now r"]
  obtain res db1 where upd: "EmployeeSerializer_update accepts db e d (now r) = (res, db1)"
    by (cases "EmployeeSerializer_update accepts db e d (now r)") simp
  have res: "res = Inr (e\<lparr>emp_fields := (case data_fields d of None \<Rightarrow> emp_fields e | Some m \<Rightarrow> m),
             updated_at := now r\<rparr>)"
    using eff upd by simp
  have db1: "employees db1 =
        map (\<lambda>x. if emp_id x = emp_id e
                  then e\<lparr>emp_fields := (case data_fields d of None \<Rightarrow> emp_fields e | Some m \<Rightarrow> m),
                         updated_at := now r\<rparr>
                  else x) (employees db)"
    "form_fields db1 = form_fields db"
    using eff upd by simp_all
  have view: "EmployeeRetrieveUpdateDestroyView_update accepts r pk (Some d) db =
      (Inr (Response_employee
         (e\<lparr>emp_fields := (case data_fields d of None \<Rightarrow> emp_fields e | Some m \<Rightarrow> m),
            updated_at := now r\<rparr>)), db1)"
    using got upd res by (simp add: EmployeeRetrieveUpdateDestroyView_update_def)
  show "let sent = (case data_fields d of None \<Rightarrow> emp_fields e | Some m \<Rightarrow> m);
                db' = snd (EmployeeRetrieveUpdateDestroyView_update accepts r pk (Some d) db)
            in fst (EmployeeRetrieveUpdateDestroyView_update accepts r pk (Some d) db)
                 = Inr (Response_employee (e\<lparr>emp_fields := sent, updated_at := now r\<rparr>))
             \<and> employees db' =
                 map (\<lambda>x. if emp_id x = pk then e\<lparr>emp_fields := sent, updated_at := now r\<rparr>
                           else x) (employees db)
             \<and> form_fields db' = form_fields db"
    unfolding Let_def view using db1 e by simp
qed

theorem updateRecord_full_replace_witness:
  "method create_request = ''POST''
   \<and> employee_edit_view create_request 1 edit_db = (Inl DoesNotExist, edit_db)
   \<and> employees (snd (employee_edit_view create_request 2 edit_db)) =
       [dept_record, nick_record\<lparr>emp_fields := [(''Name'', (Some ''42'', ''number''))], updated_at := 7\<rparr>]
   \<and> map_of (emp_fields (last (employees (snd (employee_edit_view create_request 2 edit_db)))))
        ''Nickname'' = None
   \<and> EmployeeRetrieveUpdateDestroyView_update accept_all patch_request 1 (Some hobby_data) edit_db
       = (Inl Http404, edit_db)
   \<and> employees (snd (EmployeeRetrieveUpdateDestroyView_update accept_all patch_request 2
        (Some hobby_data) edit_db)) =
       [dept_record,
        nick_record\<lparr>emp_fields := [(''Hobby'', (Some ''chess'', ''text''))], updated_at := 11\<rparr>]"
proof -
  have h: "method create_request = ''POST''" by (simp add: create_request_def)
  have none: "\<forall>e\<in>set (employees edit_db). \<not> (emp_id e = 1 \<and> user e = request_user create_request)"
    by (simp add: edit_db_def dept_record_def nick_record_def create_request_def)
  have found: "distinct (map emp_id (employees edit_db)) \<and> nick_record \<in> set (employees edit_db)
      \<and> emp_id nick_record = 2 \<and> user nick_record = request_user create_request"
    by (simp add: edit_db_def dept_record_def nick_record_def create_request_def)
  have none': "\<forall>e\<in>set (employees edit_db). \<not> (emp_id e = 1 \<and> user e = request_user patch_request)"
    by (simp add: edit_db_def dept_record_def nick_record_def patch_request_def)
  have found': "distinct (map emp_id (employees edit_db)) \<and> nick_record \<in> set (employees edit_db)
      \<and> emp_id nick_record = 2 \<and> user nick_record = request_user patch_request
      \<and> (case data_user hobby_data of None \<Rightarrow> True | Some ud \<Rightarrow> ud_email ud = None)"
    by (simp add: edit_db_def dept_record_def nick_record_def patch_request_def hobby_data_def)
  have created: "emp_fields (last (employees
        (snd (employee_create_view create_request (edit_db\<lparr>employees := []\<rparr>))))) =
      [(''Name'', (Some ''42'', ''number''))]"
    by (simp add: employee_create_view_def Employee_objects_create_def FormField_objects_filter_def
      create_request_def example_db_def edit_db_def name_field_def second_name_field_def
      dept_field_def QueryDict_get_def field_key_def str_nat.simps digit_char_values Let_def)
  note web1 = updateRecord_full_replace [OF h, where db = edit_db and pk = 1 and r = patch_request
      and accepts = accept_all and v = "Some hobby_data" and d = hobby_data]
  note web2 = updateRecord_full_replace [OF h, where db = edit_db and pk = 2 and r = patch_request
      and accepts = accept_all and v = "Some hobby_data" and d = hobby_data]
  have a: "employee_edit_view create_request 1 edit_db = (Inl DoesNotExist, edit_db)"
    using web1 none by blast
  have "employees (snd (employee_edit_view create_request 2 edit_db)) =
      map (\<lambda>x. if emp_id x = 2
                then nick_record\<lparr>emp_fields := [(''Name'', (Some ''42'', ''number''))],
                                   updated_at := now create_request\<rparr>
                else x) (employees edit_db)"
    using web2 found unfolding Let_def created by blast
  then have b: "employees (snd (employee_edit_view create_request 2 edit_db)) =
       [dept_record, nick_record\<lparr>emp_fields := [(''Name'', (Some ''42'', ''number''))], updated_at := 7\<rparr>]"
    by (simp add: edit_db_def dept_record_def nick_record_def create_request_def)
  have c: "EmployeeRetrieveUpdateDestroyView_update accept_all patch_request 1 (Some hobby_data)
      edit_db = (Inl Http404, edit_db)"
    using web1 none' by blast
  have "employees (snd (EmployeeRetrieveUpdateDestroyView_update accept_all patch_request 2
        (Some hobby_data) edit_db)) =
      map (\<lambda>x. if emp_id x = 2
                then nick_record\<lparr>emp_fields := (case data_fields hobby_data of
                                     None \<Rightarrow> emp_fields nick_record | Some m \<Rightarrow> m),
                                   updated_at := now patch_request\<rparr>
                else x) (employees edit_db)"
    using web2 found' unfolding Let_def by blast
  then have d: "employees (snd (EmployeeRetrieveUpdateDestroyView_update accept_all patch_request 2
        (Some hobby_data) edit_db)) =
       [dept_record,
        nick_record\<lparr>emp_fields := [(''Hobby'', (Some ''chess'', ''text''))], updated_at := 11\<rparr>]"
    by (simp add: edit_db_def dept_record_def nick_record_def patch_request_def hobby_data_def)
  show ?thesis using h a b c d by simp
qed

text \<open>
  C7 as stated fails for the update through the API. Account 1 defines the label \<open>Name\<close>
  only. An update that sends no map leaves the entry \<open>Nickname\<close> of the stored map in
  place, and an update that sends a map with the label \<open>Hobby\<close> has that map stored: neither
  is the map that creating a record builds from the fields.
\<close>

theorem updateRecord_full_replace_counterexample:
  "map label (FormField_objects_filter edit_db (request_user patch_request)) = [''Name'', ''Name'']
   \<and> emp_fields nick_record = [(''Nickname'', (Some ''Al'', ''text''))]
   \<and> EmployeeRetrieveUpdateDestroyView_update accept_all patch_request 2 (Some no_data) edit_db
       = (Inr (Response_employee (nick_record\<lparr>updated_at := 11\<rparr>)),
          edit_db\<lparr>employees := [dept_record, nick_record\<lparr>updated_at := 11\<rparr>]\<rparr>)
   \<and> map emp_fields (employees (snd (EmployeeRetrieveUpdateDestroyView_update accept_all
        patch_request 2 (Some hobby_data) edit_db)))
       = [[(''Dept'', (Some ''Sales'', ''select''))], [(''Hobby'', (Some ''chess'', ''text''))]]"
  by (simp add: EmployeeRetrieveUpdateDestroyView_update_def
      EmployeeRetrieveUpdateDestroyView_get_object_def
      EmployeeRetrieveUpdateDestroyView_get_queryset_def Employee_objects_filter_def
      EmployeeSerializer_update_def Employee_save_def FormField_objects_filter_def Let_def
      patch_request_def no_data_def hobby_data_def edit_db_def example_db_def dept_record_def
      nick_record_def name_field_def second_name_field_def dept_field_def)

subsection \<open>Fields that share a label\<close>



subsection \<open>Defining a field\<close>

lemma form_design_view_POST:
  assumes "method request = ''POST''"
    and "QueryDict_get (POST request) ''label'' = Some l"
    and "QueryDict_get (POST request) ''field_type'' = Some t"
  shows "form_design_view request db =
    (Inr (Redirect ''form_design''),
     db\<lparr>form_fields := form_fields db @
          [\<lparr>field_id = next_field_id db, label = l, field_type = t,
            required = (QueryDict_get (POST request) ''required'' = Some ''on''),
            order = 0, created_by = request_user request, created_at = now request\<rparr>],
        next_field_id := Suc (next_field_id db)\<rparr>)"
  using assms
  by (simp add: form_design_view_def FormField_objects_create_def sqlite_integer_def Let_def)

text \<open>
  C4, as amended. The order of a new field does not depend on the fields the owner already
  has. Through the form of \<open>form_design_view\<close> the field is appended with the column default
  0. Through \<open>perform_create\<close> of the API it is appended with 0 when the caller sent no
  order, and with the order the caller sent when that is an integer from 0 to
  9223372036854775807; for any other order the call raises (\<open>IntegrityError\<close> for a negative
  order that the database can be handed, \<open>OverflowError\<close> beyond) and stores nothing.
\<close>

theorem defineField_order:
  assumes "method request = ''POST''"
    and "QueryDict_get (POST request) ''label'' = Some l"
    and "QueryDict_get (POST request) ''field_type'' = Some t"
  shows "let db' = snd (form_design_view request db);
             new = last (form_fields db')
         in fst (form_design_view request db) = Inr (Redirect ''form_design'')
          \<and> form_fields db' = form_fields db @ [new]
          \<and> label new = l \<and> field_type new = t \<and> created_by new = request_user request
          \<and> order new = 0
          \<and> map_sum id (\<lambda>d'. (butlast (form_fields d'), order (last (form_fields d'))))
               (FormFieldListCreateView_perform_create request d db)
              = (case data_order d of
                   None \<Rightarrow> Inr (form_fields db, 0)
                 | Some n \<Rightarrow>
                     if 0 \<le> n \<and> n \<le> 9223372036854775807 then Inr (form_fields db, nat n)
                     else if - 9223372036854775808 \<le> n \<and> n < 0 then Inl IntegrityError
                     else Inl OverflowError)"
proof -
  have api: "map_sum id (\<lambda>d'. (butlast (form_fields d'), order (last (form_fields d'))))
               (FormFieldListCreateView_perform_create request d db)
              = (case data_order d of
                   None \<Rightarrow> Inr (form_fields db, 0)
                 | Some n \<Rightarrow>
                     if 0 \<le> n \<and> n \<le> 9223372036854775807 then Inr (form_fields db, nat n)
                     else if - 9223372036854775808 \<le> n \<and> n < 0 then Inl IntegrityError
                     else Inl OverflowError)"
  proof (cases "data_order d")
    case None
    then show ?thesis
      by (simp add: FormFieldListCreateView_perform_create_def FormField_objects_create_def
          sqlite_integer_def)
  next
    case (Some n)
    consider "0 \<le> n \<and> n \<le> 9223372036854775807" | "- 9223372036854775808 \<le> n \<and> n < 0"
      | "n < - 9223372036854775808" | "9223372036854775807 < n" by linarith
    then show ?thesis
    proof cases
      case 1
      then show ?thesis using Some
        by (simp add: FormFieldListCreateView_perform_create_def FormField_objects_create_def
            sqlite_integer_def)
    next
      case 2
      then show ?thesis using Some
        by (simp add: FormFieldListCreateView_perform_create_def FormField_objects_create_def
            sqlite_integer_def)
    next
      case 3
      then show ?thesis using Some
        by (simp add: FormFieldListCreateView_perform_create_def FormField_objects_create_def
            sqlite_integer_def)
    next
      case 4
      then show ?thesis using Some
        by (simp add: FormFieldListCreateView_perform_create_def FormField_objects_create_def
            sqlite_integer_def)
    qed
  qed
  show ?thesis
    unfolding Let_def form_design_view_POST [OF assms] using api by simp
qed

theorem defineField_order_witness:
  "method define_request = ''POST''
   \<and> QueryDict_get (POST define_request) ''label'' = Some ''Phone''
   \<and> QueryDict_get (POST define_request) ''field_type'' = Some ''text''
   \<and> fst (form_design_view define_request example_db) = Inr (Redirect ''form_design'')
   \<and> order (last (form_fields (snd (form_design_view define_request example_db)))) = 0
   \<and> map_sum id (\<lambda>d'. order (last (form_fields d')))
        (FormFieldListCreateView_perform_create define_request (phone_data (Some 5)) example_db)
       = Inr 5
   \<and> FormFieldListCreateView_perform_create define_request (phone_data (Some (- 1))) example_db
       = Inl IntegrityError
   \<and> FormFieldListCreateView_perform_create define_request
        (phone_data (Some 9223372036854775808)) example_db = Inl OverflowError"
proof -
  have h: "method define_request = ''POST''"
    "QueryDict_get (POST define_request) ''label'' = Some ''Phone''"
    "QueryDict_get (POST define_request) ''field_type'' = Some ''text''"
    by (simp_all add: define_request_def QueryDict_get_def)
  have form: "fst (form_design_view define_request example_db) = Inr (Redirect ''form_design'')
      \<and> order (last (form_fields (snd (form_design_view define_request example_db)))) = 0"
    using defineField_order [OF h, of example_db] by (simp add: Let_def)
  have five: "map_sum id (\<lambda>d'. (butlast (form_fields d'), order (last (form_fields d'))))
        (FormFieldListCreateView_perform_create define_request (phone_data (Some 5)) example_db)
       = Inr (form_fields example_db, 5)"
    using defineField_order [OF h, of example_db "phone_data (Some 5)"]
    by (simp add: Let_def phone_data_def)
  then have a: "map_sum id (\<lambda>d'. order (last (form_fields d')))
        (FormFieldListCreateView_perform_create define_request (phone_data (Some 5)) example_db)
       = Inr 5"
    by (cases "FormFieldListCreateView_perform_create define_request (phone_data (Some 5)) example_db")
      simp_all
  have "map_sum id (\<lambda>d'. (butlast (form_fields d'), order (last (form_fields d'))))
        (FormFieldListCreateView_perform_create define_request (phone_data (Some (- 1))) example_db)
       = Inl IntegrityError"
    using defineField_order [OF h, of example_db "phone_data (Some (- 1))"]
    by (simp add: Let_def phone_data_def)
  then have b: "FormFieldListCreateView_perform_create define_request (phone_data (Some (- 1)))
      example_db = Inl IntegrityError"
    by (cases "FormFieldListCreateView_perform_create define_request (phone_data (Some (- 1))) example_db")
      simp_all
  have "map_sum id (\<lambda>d'. (butlast (form_fields d'), order (last (form_fields d'))))
        (FormFieldListCreateView_perform_create define_request
          (phone_data (Some 9223372036854775808)) example_db)
       = Inl OverflowError"
    using defineField_order [OF h, of example_db "phone_data (Some 9223372036854775808)"]
    by (simp add: Let_def phone_data_def)
  then have c: "FormFieldListCreateView_perform_create define_request
      (phone_data (Some 9223372036854775808)) example_db = Inl OverflowError"
    by (cases "FormFieldListCreateView_perform_create define_request
        (phone_data (Some 9223372036854775808)) example_db") simp_all
  show ?thesis using h form a b c by simp
qed

text \<open>
  C4 as stated fails: the owner's fields have the orders 0 and 1, so the next slot would be
  2, and the new field gets 0.
\<close>

theorem defineField_order_counterexample:
  "map order (FormField_objects_filter example_db (request_user define_request)) = [0, 1]
   \<and> fst (form_design_view define_request example_db) = Inr (Redirect ''form_design'')
   \<and> order (last (form_fields (snd (form_design_view define_request example_db)))) = 0
   \<and> map order (FormField_objects_filter (snd (form_design_view define_request example_db))
        (request_user define_request)) = [0, 0, 1]"
  by (simp add: form_design_view_def FormField_objects_create_def sqlite_integer_def
      FormField_objects_filter_def define_request_def example_db_def name_field_def second_name_field_def dept_field_def
      QueryDict_get_def Let_def)

text \<open>
  C8 does not hold of \<open>form_design_view\<close>: \<open>bogus\<close> is none of the declared types, and the
  form stores a field of that type without any error.
\<close>

theorem defineField_undeclared_type:
  "''bogus'' \<notin> set (map fst FIELD_TYPES)
   \<and> QueryDict_get (POST bogus_request) ''field_type'' = Some ''bogus''
   \<and> fst (form_design_view bogus_request example_db) = Inr (Redirect ''form_design'')
   \<and> field_type (last (form_fields (snd (form_design_view bogus_request example_db)))) = ''bogus''
   \<and> length (form_fields (snd (form_design_view bogus_request example_db)))
       = Suc (length (form_fields example_db))"
  by (simp add: form_design_view_def FormField_objects_create_def sqlite_integer_def
      FIELD_TYPES_def bogus_request_def example_db_def QueryDict_get_def Let_def)

subsection \<open>One record for each account\<close>

text \<open>
  C5 does not hold of the code. Once \<open>employee_create_view\<close> has stored a record for an
  owner, the next POST of the same owner raises \<open>IntegrityError\<close> and stores nothing: the
  owner keeps exactly one record.
\<close>

theorem second_record_refused:
  assumes "method r1 = ''POST''" and "method r2 = ''POST''"
    and "request_user r2 = request_user r1"
    and "fst (employee_create_view r1 db) = Inr resp"
  shows "employee_create_view r2 (snd (employee_create_view r1 db))
           = (Inl IntegrityError, snd (employee_create_view r1 db))
       \<and> length (Employee_objects_filter (snd (employee_create_view r1 db)) (request_user r1)) = 1"
proof -
  have free: "\<forall>e \<in> set (employees db). user e \<noteq> request_user r1"
    using assms(1,4)
    by (auto simp: employee_create_view_def Employee_objects_create_def Let_def
        split: if_splits)
  then have none: "filter (\<lambda>e. user e = request_user r1) (employees db) = []"
    by (simp add: filter_empty_conv)
  note first = employee_create_view_POST [OF assms(1) free]
  have "\<exists>e \<in> set (employees (snd (employee_create_view r1 db))). user e = request_user r2"
    unfolding first using assms(3) by simp
  then have "employee_create_view r2 (snd (employee_create_view r1 db))
      = (Inl IntegrityError, snd (employee_create_view r1 db))"
    using assms(2) by (simp add: employee_create_view_def Employee_objects_create_def Let_def)
  moreover have "length (Employee_objects_filter (snd (employee_create_view r1 db)) (request_user r1)) = 1"
    unfolding first using none by (simp add: Employee_objects_filter_def)
  ultimately show ?thesis by simp
qed

theorem second_record_refused_witness:
  "method create_request = ''POST''
   \<and> fst (employee_create_view create_request example_db) = Inr (Redirect ''employee_list'')
   \<and> fst (employee_create_view create_request (snd (employee_create_view create_request example_db)))
       = Inl IntegrityError
   \<and> length (Employee_objects_filter
        (snd (employee_create_view create_request (snd (employee_create_view create_request example_db))))
        (request_user create_request)) = 1"
proof -
  have h: "method create_request = ''POST''" by (simp add: create_request_def)
  have free: "\<forall>e \<in> set (employees example_db). user e \<noteq> request_user create_request"
    by (simp add: example_db_def dept_record_def create_request_def)
  have ok: "fst (employee_create_view create_request example_db) = Inr (Redirect ''employee_list'')"
    using employee_create_view_POST [OF h free] by simp
  from second_record_refused [OF h h refl ok] show ?thesis using h ok by simp
qed

subsection \<open>What one account sees of another\<close>

text \<open>
  The queries of the HTML views and the look-ups by primary key stay within the account
  of the request: an object of another account is not found.
\<close>

lemma other_views_keep_accounts_apart:
  "set (Employee_objects_filter db u) \<subseteq> {e. user e = u}"
  "set (FormField_objects_filter db u) \<subseteq> {f. created_by f = u}"
  "(\<forall>e\<in>set (employees db). emp_id e = pk \<longrightarrow> user e \<noteq> request_user request) \<Longrightarrow>
     employee_edit_view request pk db = (Inl DoesNotExist, db)
     \<and> employee_delete_view request pk db = (Inl DoesNotExist, db)
     \<and> EmployeeRetrieveUpdateDestroyView_get_object request pk db = Inl Http404"
  "(\<forall>f\<in>set (form_fields db). field_id f = pk \<longrightarrow> created_by f \<noteq> request_user request) \<Longrightarrow>
     FormFieldRetrieveUpdateDestroyView_get_object request pk db = Inl Http404
     \<and> FormFieldRetrieveUpdateDestroyView_destroy request pk db = (Inl Http404, db)"
proof -
  show "set (Employee_objects_filter db u) \<subseteq> {e. user e = u}"
    by (auto simp: Employee_objects_filter_def)
  show "set (FormField_objects_filter db u) \<subseteq> {f. created_by f = u}"
    by (auto simp: FormField_objects_filter_def)
next
  assume a: "\<forall>e\<in>set (employees db). emp_id e = pk \<longrightarrow> user e \<noteq> request_user request"
  then have "\<forall>e\<in>set (employees db). \<not> (emp_id e = pk \<and> user e = request_user request)" by blast
  then have g: "Employee_objects_get db pk (request_user request) = Inl DoesNotExist"
    by (rule Employee_objects_get_none)
  have "filter (\<lambda>e. emp_id e = pk) (filter (\<lambda>e. user e = request_user request) (employees db)) = []"
    using a by (auto simp: filter_empty_conv)
  then have "EmployeeRetrieveUpdateDestroyView_get_object request pk db = Inl Http404"
    by (simp add: EmployeeRetrieveUpdateDestroyView_get_object_def
        EmployeeRetrieveUpdateDestroyView_get_queryset_def Employee_objects_filter_def)
  then show "employee_edit_view request pk db = (Inl DoesNotExist, db)
     \<and> employee_delete_view request pk db = (Inl DoesNotExist, db)
     \<and> EmployeeRetrieveUpdateDestroyView_get_object request pk db = Inl Http404"
    using g by (simp add: employee_edit_view_def employee_delete_view_def)
next
  assume a: "\<forall>f\<in>set (form_fields db). field_id f = pk \<longrightarrow> created_by f \<noteq> request_user request"
  have "filter (\<lambda>f. field_id f = pk) (FormField_objects_filter db (request_user request)) = []"
    using a by (auto simp: filter_empty_conv set_FormField_objects_filter)
  then have "FormFieldRetrieveUpdateDestroyView_get_object request pk db = Inl Http404"
    by (simp add: FormFieldRetrieveUpdateDestroyView_get_object_def
        FormFieldRetrieveUpdateDestroyView_get_queryset_def)
  then show "FormFieldRetrieveUpdateDestroyView_get_object request pk db = Inl Http404
     \<and> FormFieldRetrieveUpdateDestroyView_destroy request pk db = (Inl Http404, db)"
    by (simp add: FormFieldRetrieveUpdateDestroyView_destroy_def)
qed

text \<open>
  C6 does not hold of \<open>EmployeeListCreateView\<close>: its list is the whole table. Account 1
  asks for the list and is given the record of account 2.
\<close>

theorem employee_api_list_shows_other_accounts:
  "request_user list_request = 1
   \<and> user dept_record = 2
   \<and> fst (EmployeeListCreateView_list list_request example_db)
       = Inr (Response_employees [dept_record])
   \<and> fst (employee_list_view list_request example_db)
       = Inr (Render_employee_list [] [name_field, second_name_field] [])"
  by (simp add: EmployeeListCreateView_list_def EmployeeListCreateView_get_queryset_def
      employee_list_view_def Employee_objects_filter_def FormField_objects_filter_def
      QueryDict_get_default_def QueryDict_get_def Let_def
      list_request_def example_db_def dept_record_def name_field_def second_name_field_def
      dept_field_def)

subsection \<open>Deleting a field\<close>

lemma FormFieldRetrieveUpdateDestroyView_get_object_Inr:
  assumes "FormFieldRetrieveUpdateDestroyView_get_object request pk db = Inr f"
  shows "field_id f = pk \<and> created_by f = request_user request \<and> f \<in> set (form_fields db)"
proof -
  let ?qs = "FormFieldRetrieveUpdateDestroyView_get_queryset request db"
  have "filter (\<lambda>f. field_id f = pk) ?qs = [f]"
    using assms
    by (auto simp: FormFieldRetrieveUpdateDestroyView_get_object_def split: list.splits)
  then have "f \<in> set (filter (\<lambda>f. field_id f = pk) ?qs)" by simp
  then show ?thesis
    by (simp add: FormFieldRetrieveUpdateDestroyView_get_queryset_def set_FormField_objects_filter)
qed

lemma FormFieldRetrieveUpdateDestroyView_get_object_Inl:
  assumes "FormFieldRetrieveUpdateDestroyView_get_object request pk db = Inl e"
  shows "e = Http404 \<or> e = MultipleObjectsReturned"
  using assms
  by (auto simp: FormFieldRetrieveUpdateDestroyView_get_object_def split: list.splits)

text \<open>
  C9. \<open>destroy\<close> of the field view never changes the table of records: every record is
  there afterwards with the values map it had. The call either removes the rows of the given
  primary key from the table of fields and answers 204, or it raises and changes nothing.
\<close>

theorem deleteField_keeps_records:
  "employees (snd (FormFieldRetrieveUpdateDestroyView_destroy request pk db)) = employees db
   \<and> map emp_fields (employees (snd (FormFieldRetrieveUpdateDestroyView_destroy request pk db)))
       = map emp_fields (employees db)
   \<and> (fst (FormFieldRetrieveUpdateDestroyView_destroy request pk db) = Inr Response_no_content
        \<and> form_fields (snd (FormFieldRetrieveUpdateDestroyView_destroy request pk db))
            = filter (\<lambda>g. field_id g \<noteq> pk) (form_fields db)
      \<or> fst (FormFieldRetrieveUpdateDestroyView_destroy request pk db)
            \<in> {Inl Http404, Inl MultipleObjectsReturned}
        \<and> snd (FormFieldRetrieveUpdateDestroyView_destroy request pk db) = db)"
proof (cases "FormFieldRetrieveUpdateDestroyView_get_object request pk db")
  case (Inl e)
  then show ?thesis
    using FormFieldRetrieveUpdateDestroyView_get_object_Inl [OF Inl]
    by (auto simp: FormFieldRetrieveUpdateDestroyView_destroy_def)
next
  case (Inr f)
  then show ?thesis
    using FormFieldRetrieveUpdateDestroyView_get_object_Inr [OF Inr]
    by (simp add: FormFieldRetrieveUpdateDestroyView_destroy_def)
qed

theorem deleteField_keeps_records_witness:
  "fst (FormFieldRetrieveUpdateDestroyView_destroy list_request 2 edit_db) = Inr Response_no_content
   \<and> form_fields (snd (FormFieldRetrieveUpdateDestroyView_destroy list_request 2 edit_db))
       = [name_field, dept_field]
   \<and> employees (snd (FormFieldRetrieveUpdateDestroyView_destroy list_request 2 edit_db))
       = [dept_record, nick_record]"
proof -
  have ok: "fst (FormFieldRetrieveUpdateDestroyView_destroy list_request 2 edit_db)
      = Inr Response_no_content"
    by (simp add: FormFieldRetrieveUpdateDestroyView_destroy_def
        FormFieldRetrieveUpdateDestroyView_get_object_def
        FormFieldRetrieveUpdateDestroyView_get_queryset_def FormField_objects_filter_def
        list_request_def edit_db_def example_db_def name_field_def second_name_field_def
        dept_field_def)
  have "fst (FormFieldRetrieveUpdateDestroyView_destroy list_request 2 edit_db)
      \<notin> {Inl Http404, Inl MultipleObjectsReturned}"
    unfolding ok by simp
  then have "form_fields (snd (FormFieldRetrieveUpdateDestroyView_destroy list_request 2 edit_db))
      = filter (\<lambda>g. field_id g \<noteq> 2) (form_fields edit_db)"
    using deleteField_keeps_records [of list_request 2 edit_db] by blast
  then have fs: "form_fields (snd (FormFieldRetrieveUpdateDestroyView_destroy list_request 2 edit_db))
      = [name_field, dept_field]"
    by (simp add: edit_db_def example_db_def name_field_def second_name_field_def dept_field_def)
  have "employees (snd (FormFieldRetrieveUpdateDestroyView_destroy list_request 2 edit_db))
      = employees edit_db"
    using deleteField_keeps_records [of list_request 2 edit_db] by blast
  then show ?thesis using ok fs by (simp add: edit_db_def)
qed

subsection \<open>Listing and searching records\<close>







subsection \<open>Reordering the fields\<close>

lemma update_order_loop_Cons:
  "update_order_loop to_int u (enumerate n (s # ss)) db =
     (case to_int s of
        None \<Rightarrow> (Some ValueError, db)
      | Some k \<Rightarrow>
          (case FormField_update_order db k u n of
             Inl e \<Rightarrow> (Some e, db)
           | Inr db' \<Rightarrow> update_order_loop to_int u (enumerate (Suc n) ss) db'))"
  by simp
















text \<open>
  An id that stands twice in the sequence: the field ends with the order of the later
  position.
\<close>

lemma reorder_repeated_id:
  "map order (form_fields (snd (update_field_order python_int repeated_request example_db)))
     = [2, 1, 0]"
  by code_simp

text \<open>What Python's \<open>int\<close> accepts besides plain digits, and what it refuses.\<close>

lemma python_int_examples:
  "python_int '' 2'' = Some 2" "python_int ''+2'' = Some 2" "python_int ''-2'' = Some (- 2)"
  "python_int ''2_0'' = Some 20" "python_int ''007'' = Some 7"
  "python_int ''2__0'' = None" "python_int ''_2'' = None" "python_int ''2_'' = None"
  "python_int ''- 2'' = None" "python_int [] = None" "python_int ''abc'' = None"
  by code_simp+

end
